theory Spec2Isabelle
  imports Main "HOL-Library.Sublist" "HOL-Library.Multiset" "HOL-Library.Word"
begin

section \<open>The investor dashboard: binding requests and trader statistics\<close>

text \<open>
  The component \<^verbatim>\<open>InvestorDashboard\<close> keeps its state in React hooks and talks to a
  remote store through the Supabase client. The embedding passes that state explicitly:
  a \<open>component\<close> record for the hooks (with the toasts shown and the lines written to
  \<^verbatim>\<open>console.error\<close>), and a \<open>backend\<close> record for the remote tables together with
  the requests the client has sent so far. Each \<^verbatim>\<open>async\<close> handler is a function from
  such a pair to the pair it leaves behind.

  Numbers are JavaScript numbers, that is IEEE doubles, in the source. Their type is a
  parameter \<open>'n\<close> here, with an addition, a multiplication and a zero of which no law
  is assumed: no associativity, no exactness. Every theorem therefore holds of the
  arithmetic of doubles, rounding, infinities and NaN included. Which numbers count as
  false in a condition is a parameter \<open>falsy\<close>.

  The code that the investor types, the codes of the traders and the key of the lookup
  are JavaScript strings: sequences of 16-bit code units. Texts that the component only
  compares or passes on (identifiers, roles, error codes, messages) are kept as plain
  strings.
\<close>

subsection \<open>Strings\<close>

type_synonym code_unit = "16 word"

type_synonym js_string = "code_unit list"

text \<open>The code units of a text written in ASCII.\<close>

definition ascii :: "string \<Rightarrow> js_string" where
  "ascii s = map of_char s"

text \<open>
  \<^verbatim>\<open>trim\<close> removes white space and line terminators from both ends. These are, in
  ECMAScript, tab, line feed, vertical tab, form feed, carriage return, the byte order
  mark U+FEFF, the separators U+2028 and U+2029, and the space separators of Unicode:
  U+0020, U+00A0, U+1680, U+2000 to U+200A, U+202F, U+205F and U+3000. Each is one code
  unit.
\<close>

definition white_space :: "code_unit list" where
  "white_space =
     [0x0009, 0x000A, 0x000B, 0x000C, 0x000D, 0x0020, 0x00A0, 0x1680,
      0x2000, 0x2001, 0x2002, 0x2003, 0x2004, 0x2005, 0x2006, 0x2007, 0x2008, 0x2009, 0x200A,
      0x2028, 0x2029, 0x202F, 0x205F, 0x3000, 0xFEFF]"

definition is_space :: "code_unit \<Rightarrow> bool" where
  "is_space c = (c \<in> set white_space)"

definition trim :: "js_string \<Rightarrow> js_string" where
  "trim s = rev (dropWhile is_space (rev (dropWhile is_space s)))"

text \<open>
  \<^verbatim>\<open>toUpperCase\<close> maps a string code point by code point, whatever stands around it.
  An ASCII code unit is a code point of its own: a lower-case letter goes to its capital
  and every other ASCII unit stays. What becomes of the other code points is laid down in
  the tables of Unicode (a sharp s becomes SS, for one), which are not modelled: the
  parameter \<open>U\<close> stands for the upper-casing of a run of code units outside ASCII, and
  every theorem holds whatever \<open>U\<close> is.
\<close>

definition is_ascii :: "code_unit \<Rightarrow> bool" where
  "is_ascii c = (c < 0x80)"

definition lower_letters :: js_string where
  "lower_letters = ascii ''abcdefghijklmnopqrstuvwxyz''"

definition upper_letters :: js_string where
  "upper_letters = ascii ''ABCDEFGHIJKLMNOPQRSTUVWXYZ''"

definition upper_ascii :: "code_unit \<Rightarrow> code_unit" where
  "upper_ascii c =
     (case map_of (zip lower_letters upper_letters) c of None \<Rightarrow> c | Some u \<Rightarrow> u)"

function toUpperCase :: "(js_string \<Rightarrow> js_string) \<Rightarrow> js_string \<Rightarrow> js_string" where
  "toUpperCase U [] = []"
| "toUpperCase U (c # s) =
     (if is_ascii c then upper_ascii c # toUpperCase U s
      else U (c # takeWhile (\<lambda>x. \<not> is_ascii x) s) @
           toUpperCase U (dropWhile (\<lambda>x. \<not> is_ascii x) s))"
  by pat_completeness auto
termination
  by (relation "measure (\<lambda>(U, s). length s)") (auto simp: length_dropWhile_le less_Suc_eq_le)

text \<open>
  Two code units that are the same up to the case of an ASCII letter, and two strings
  that differ only in the case of such letters. (Letters outside ASCII have to agree:
  which of them are variants in case of one another is again in the tables of Unicode.)
\<close>

definition same_letter :: "code_unit \<Rightarrow> code_unit \<Rightarrow> bool" where
  "same_letter a b = (a = b \<or> b = upper_ascii a \<or> a = upper_ascii b)"

definition differ_only_in_case :: "js_string \<Rightarrow> js_string \<Rightarrow> bool" where
  "differ_only_in_case s t = list_all2 same_letter s t"

text \<open>
  The shape of a trader code in the words of the specification: a fixed-length (8
  characters) uppercase alphanumeric code. The component never tests it.
\<close>

definition is_code_char :: "code_unit \<Rightarrow> bool" where
  "is_code_char c = (c \<in> set (ascii ''0123456789'' @ upper_letters))"

definition well_formed_code :: "js_string \<Rightarrow> bool" where
  "well_formed_code s = (length s = 8 \<and> list_all is_code_char s)"

subsection \<open>Rows of the remote tables\<close>

text \<open>
  Modelled from the spec: the row types are declared in \<^verbatim>\<open>@/types/database\<close>,
  which is not among the sources. The fields below are the ones the component reads and
  the ones the data model of the specification (section 3) lists. Column \<^verbatim>\<open>id\<close> is
  written \<open>ident\<close>, and a creation time is a natural number.
\<close>

record app_user =
  ident :: string
  username :: string
  role :: string
  currency :: string
  trader_uid :: "js_string option"

datatype binding_status = none | pending | approved

record binding =
  trader_id :: string
  investor_id :: string
  status :: binding_status

record 'n trade =
  trade_ident :: string
  user_id :: string
  asset :: string
  category :: string
  price :: 'n
  quantity :: 'n
  profit_loss :: "'n option"
  created_at :: nat

subsection \<open>What an awaited query gives back\<close>

text \<open>
  An awaited Supabase query resolves to an object \<^verbatim>\<open>{ data, error }\<close>, either of
  which may be null, or the promise rejects and the \<^verbatim>\<open>await\<close> throws. The handlers
  read \<^verbatim>\<open>code\<close> and \<^verbatim>\<open>message\<close> of an error.
\<close>

record pg_error =
  code :: string
  message :: string

datatype 'a reply = Resolved "'a option" "pg_error option" | Rejected string

text \<open>
  How a single request fares on the way to the store: it reaches the store, or it comes
  back with an error object and no data, or the call throws.
\<close>

datatype fault = Reachable | ErrorReply pg_error | Throw string

fun throws :: "fault \<Rightarrow> bool" where
  "throws (Throw m) = True"
| "throws f = False"

datatype request =
  SelectTrader js_string
| InsertBinding string "string option"
| SelectTrades string

fun is_insert :: "request \<Rightarrow> bool" where
  "is_insert (InsertBinding t i) = True"
| "is_insert r = False"

record 'n backend =
  users_table :: "app_user list"
  bindings_table :: "binding list"
  trades_table :: "'n trade list"
  requests :: "request list"

subsection \<open>The store\<close>

text \<open>
  Modelled from the spec: the tables live in the remote store, whose schema is not among
  the sources. Section 6 of the specification gives the query: users where
  \<^verbatim>\<open>trader_uid = code AND role = 'trader'\<close>.
\<close>

definition traders_with_code :: "'n backend \<Rightarrow> js_string \<Rightarrow> app_user list" where
  "traders_with_code b c =
     filter (\<lambda>u. trader_uid u = Some c \<and> role u = ''trader'') (users_table b)"

text \<open>
  Modelled from the spec: the lookup expects 0 or 1 row (section 6). With
  \<^verbatim>\<open>maybeSingle\<close> no row is null data without an error, and more than one row is
  an error. Every request is entered in the log of requests, whether it arrives or not.
\<close>

definition select_trader ::
    "fault \<Rightarrow> 'n backend \<Rightarrow> js_string \<Rightarrow> app_user reply \<times> 'n backend" where
  "select_trader f b c =
     (let b' = b\<lparr>requests := requests b @ [SelectTrader c]\<rparr> in
      case f of
        Throw m \<Rightarrow> (Rejected m, b')
      | ErrorReply e \<Rightarrow> (Resolved None (Some e), b')
      | Reachable \<Rightarrow>
          (case traders_with_code b c of
             [] \<Rightarrow> (Resolved None None, b')
           | [u] \<Rightarrow> (Resolved (Some u) None, b')
           | u # v # rest \<Rightarrow>
               (Resolved None
                  (Some \<lparr>code = ''PGRST116'', message = ''multiple rows returned''\<rparr>), b')))"

text \<open>
  Modelled from the spec: at most one binding row per investor identity, enforced by a
  uniqueness constraint on the investor key (section 3). An investor holds a binding when
  some row, of any status and to any trader, carries the investor's id.
\<close>

definition holds_binding :: "'n backend \<Rightarrow> string \<Rightarrow> bool" where
  "holds_binding b investor = list_ex (\<lambda>x. investor_id x = investor) (bindings_table b)"

text \<open>
  Modelled from the spec: insert into bindings \<^verbatim>\<open>{trader_id, investor_id}\<close> with
  default status \<^verbatim>\<open>pending\<close>, relying on a backing uniqueness constraint over
  \<^verbatim>\<open>investor_id\<close> (sections 3 and 6). A violation of that constraint is reported
  with code 23505, the code the handler tests for, and stores nothing. A binding relates
  exactly one investor to one trader, so a row with no investor is refused as well (code
  23502). An insert without a following select resolves with null data.
\<close>

definition insert_binding ::
    "fault \<Rightarrow> 'n backend \<Rightarrow> string \<Rightarrow> string option \<Rightarrow> unit reply \<times> 'n backend" where
  "insert_binding f b t i =
     (let b' = b\<lparr>requests := requests b @ [InsertBinding t i]\<rparr> in
      case f of
        Throw m \<Rightarrow> (Rejected m, b')
      | ErrorReply e \<Rightarrow> (Resolved None (Some e), b')
      | Reachable \<Rightarrow>
          (case i of
             None \<Rightarrow>
               (Resolved None
                  (Some \<lparr>code = ''23502'', message = ''null value in column investor_id''\<rparr>), b')
           | Some investor \<Rightarrow>
               if holds_binding b investor
               then (Resolved None
                       (Some \<lparr>code = ''23505'',
                              message = ''duplicate key value violates unique constraint''\<rparr>), b')
               else (Resolved None None,
                     b'\<lparr>bindings_table := bindings_table b @
                          [\<lparr>trader_id = t, investor_id = investor, status = pending\<rparr>]\<rparr>)))"

text \<open>
  Modelled from the spec: trades where \<^verbatim>\<open>user_id = traderId\<close>, ordered by creation
  time descending (section 6). \<open>ledger\<close> is the result of that query on a store that
  is reached.
\<close>

definition ledger :: "'n backend \<Rightarrow> string \<Rightarrow> 'n trade list" where
  "ledger b traderId =
     rev (sort_key created_at (filter (\<lambda>t. user_id t = traderId) (trades_table b)))"

text \<open>
  Modelled from the spec: the read of the ledger, answered with \<open>ledger\<close> when the store
  is reached.
\<close>

definition select_trades ::
    "fault \<Rightarrow> 'n backend \<Rightarrow> string \<Rightarrow> 'n trade list reply \<times> 'n backend" where
  "select_trades f b traderId =
     (let b' = b\<lparr>requests := requests b @ [SelectTrades traderId]\<rparr> in
      case f of
        Throw m \<Rightarrow> (Rejected m, b')
      | ErrorReply e \<Rightarrow> (Resolved None (Some e), b')
      | Reachable \<Rightarrow> (Resolved (Some (ledger b traderId)) None, b'))"

subsection \<open>The component\<close>

record 'n trader_stats =
  totalTrades :: nat
  totalValue :: 'n
  totalPnL :: 'n

record toast =
  title :: string
  description :: string
  variant :: "string option"

record 'n component =
  traderUid :: js_string
  boundTrader :: "app_user option"
  bindingStatus :: binding_status
  traderStats :: "'n trader_stats"
  recentTrades :: "'n trade list"
  loading :: bool
  submitting :: bool
  toasts :: "toast list"
  console :: "(string \<times> string) list"

text \<open>The state of a freshly mounted component, as the \<^verbatim>\<open>useState\<close> calls give it.\<close>

definition mounted :: "'n::zero component" where
  "mounted =
     \<lparr>traderUid = [], boundTrader = None, bindingStatus = none,
      traderStats = \<lparr>totalTrades = 0, totalValue = 0, totalPnL = 0\<rparr>,
      recentTrades = [], loading = True, submitting = False, toasts = [], console = []\<rparr>"

text \<open>
  The component once the binding check has ended without a binding: the form is shown.
\<close>

definition ready :: "'n::zero component" where
  "ready = mounted\<lparr>loading := False\<rparr>"

text \<open>
  \<^verbatim>\<open>trade.profit_loss || 0\<close>: null gives 0, and so does a number that counts as
  false (a zero or NaN); any other number is kept.
\<close>

definition or_zero :: "('n \<Rightarrow> bool) \<Rightarrow> 'n option \<Rightarrow> 'n::zero" where
  "or_zero falsy v = (case v of None \<Rightarrow> 0 | Some x \<Rightarrow> if falsy x then 0 else x)"

text \<open>
  \<^verbatim>\<open>fetchTraderData\<close> (lines 69-93). Null data skips the whole \<^verbatim>\<open>if (trades)\<close>
  block; an exception is caught and logged; nothing else is done in either case. The two
  \<^verbatim>\<open>reduce\<close> calls run through the array from its first element, starting at 0.
\<close>

definition fetchTraderData ::
    "('n \<Rightarrow> bool) \<Rightarrow> fault \<Rightarrow> string \<Rightarrow> 'n component \<times> 'n backend \<Rightarrow>
     'n::{zero,plus,times} component \<times> 'n backend" where
  "fetchTraderData falsy f traderId = (\<lambda>(d, b).
     case select_trades f b traderId of
       (Rejected m, b') \<Rightarrow>
         (d\<lparr>console := console d @ [(''Error fetching trader data:'', m)]\<rparr>, b')
     | (Resolved None err, b') \<Rightarrow> (d, b')
     | (Resolved (Some trades) err, b') \<Rightarrow>
         (let totalValue = foldl (\<lambda>sum trade. sum + price trade * quantity trade) 0 trades;
              totalPnL = foldl (\<lambda>sum trade. sum + or_zero falsy (profit_loss trade)) 0 trades
          in (d\<lparr>traderStats :=
                   \<lparr>totalTrades = length trades, totalValue = totalValue, totalPnL = totalPnL\<rparr>,
                 recentTrades := take 5 trades\<rparr>, b')))"

text \<open>
  The sum of a list of numbers as the component takes it: from 0, adding one number after
  the other in the order of the list.
\<close>

definition running_sum :: "'n list \<Rightarrow> 'n::{zero,plus}" where
  "running_sum xs = foldl (+) 0 xs"

text \<open>
  What doubles do with whole numbers: a whole number of magnitude up to \<open>2 ^ 53\<close> is a
  double, written \<open>lit a\<close>; a sum or a product of two of them that stays in that range
  is computed exactly (a product of a zero is left out, for it can be the negative zero);
  and such a double counts as false just when it is zero.
\<close>

definition exact_on_integers :: "(int \<Rightarrow> 'n::{zero,plus,times}) \<Rightarrow> ('n \<Rightarrow> bool) \<Rightarrow> bool" where
  "exact_on_integers lit falsy =
     (lit 0 = 0
      \<and> (\<forall>a b. \<bar>a\<bar> \<le> 2 ^ 53 \<and> \<bar>b\<bar> \<le> 2 ^ 53 \<and> \<bar>a + b\<bar> \<le> 2 ^ 53 \<longrightarrow>
            lit a + lit b = lit (a + b))
      \<and> (\<forall>a b. a \<noteq> 0 \<and> b \<noteq> 0 \<and> \<bar>a\<bar> \<le> 2 ^ 53 \<and> \<bar>b\<bar> \<le> 2 ^ 53 \<and> \<bar>a * b\<bar> \<le> 2 ^ 53 \<longrightarrow>
            lit a * lit b = lit (a * b))
      \<and> (\<forall>a. \<bar>a\<bar> \<le> 2 ^ 53 \<longrightarrow> falsy (lit a) = (a = 0)))"

text \<open>The toasts of \<^verbatim>\<open>handleBindingRequest\<close>, one per branch.\<close>

definition toast_enter_uid :: toast where
  "toast_enter_uid =
     \<lparr>title = ''Error'', description = ''Please enter a trader UID'',
      variant = Some ''destructive''\<rparr>"

definition toast_trader_not_found :: toast where
  "toast_trader_not_found =
     \<lparr>title = ''Trader not found'',
      description = ''Please check the trader UID and try again'',
      variant = Some ''destructive''\<rparr>"

definition toast_already_requested :: toast where
  "toast_already_requested =
     \<lparr>title = ''Already requested'',
      description = ''You have already sent a request to this trader'',
      variant = Some ''destructive''\<rparr>"

definition toast_request_sent :: "app_user \<Rightarrow> toast" where
  "toast_request_sent trader =
     \<lparr>title = ''Request sent!'',
      description = ''Binding request sent to '' @ username trader @ ''. Please wait for approval.'',
      variant = None\<rparr>"

definition toast_error :: "string \<Rightarrow> toast" where
  "toast_error m = \<lparr>title = ''Error'', description = m, variant = Some ''destructive''\<rparr>"

definition show_toast :: "toast \<Rightarrow> 'n component \<Rightarrow> 'n component" where
  "show_toast t d = d\<lparr>toasts := toasts d @ [t]\<rparr>"

text \<open>The \<^verbatim>\<open>catch\<close> and \<^verbatim>\<open>finally\<close> blocks of \<^verbatim>\<open>handleBindingRequest\<close>.\<close>

definition catch_error :: "string \<Rightarrow> 'n component \<Rightarrow> 'n component" where
  "catch_error m d = show_toast (toast_error m) d"

definition finally_block :: "'n component \<Rightarrow> 'n component" where
  "finally_block d = d\<lparr>submitting := False\<rparr>"

text \<open>
  \<^verbatim>\<open>handleBindingRequest\<close> (lines 95-162). \<open>U\<close> is the upper-casing outside ASCII
  that \<^verbatim>\<open>toUpperCase\<close> draws on; \<open>lf\<close> and \<open>insf\<close> say how the lookup and the
  insert fare on the network; \<open>profile\<close> is the signed-in user, whose id is read as
  \<^verbatim>\<open>profile?.id\<close>.
\<close>

definition handleBindingRequest ::
    "(js_string \<Rightarrow> js_string) \<Rightarrow> fault \<Rightarrow> fault \<Rightarrow> app_user option \<Rightarrow>
     'n component \<times> 'n backend \<Rightarrow> 'n component \<times> 'n backend" where
  "handleBindingRequest U lf insf profile = (\<lambda>(d, b).
     if trim (traderUid d) = [] then (show_toast toast_enter_uid d, b)
     else
       (let d1 = d\<lparr>submitting := True\<rparr> in
        case select_trader lf b (toUpperCase U (trim (traderUid d1))) of
          (Rejected m, b1) \<Rightarrow> (finally_block (catch_error m d1), b1)
        | (Resolved None traderError, b1) \<Rightarrow>
            (finally_block (show_toast toast_trader_not_found d1), b1)
        | (Resolved (Some trader) (Some e), b1) \<Rightarrow>
            (finally_block (show_toast toast_trader_not_found d1), b1)
        | (Resolved (Some trader) None, b1) \<Rightarrow>
            (case insert_binding insf b1 (ident trader) (map_option ident profile) of
               (Rejected m, b2) \<Rightarrow> (finally_block (catch_error m d1), b2)
             | (Resolved x (Some bindingError), b2) \<Rightarrow>
                 if code bindingError = ''23505''
                 then (finally_block (show_toast toast_already_requested d1), b2)
                 else (finally_block (catch_error (message bindingError) d1), b2)
             | (Resolved x None, b2) \<Rightarrow>
                 (finally_block
                    (show_toast (toast_request_sent trader)
                       (d1\<lparr>boundTrader := Some trader, bindingStatus := pending,
                           traderUid := []\<rparr>)), b2))))"

text \<open>
  What the caller sees of a call: it succeeded when the toast it added is the
  \<^verbatim>\<open>Request sent!\<close> one, and it failed when the toast it added is a destructive one.
\<close>

definition succeeded :: "'n component \<Rightarrow> 'n component \<Rightarrow> bool" where
  "succeeded d d' =
     (case boundTrader d' of
        None \<Rightarrow> False
      | Some t \<Rightarrow> toasts d' = toasts d @ [toast_request_sent t])"

definition failed :: "'n component \<Rightarrow> 'n component \<Rightarrow> bool" where
  "failed d d' =
     (toasts d' = toasts d @ [last (toasts d')] \<and>
      variant (last (toasts d')) = Some ''destructive'')"

subsection \<open>A small store to run the handlers on\<close>

text \<open>
  The runs below are on codes written in ASCII, where the tables of Unicode are never
  consulted; \<open>no_unicode\<close> stands in for them. Their numbers are whole numbers with
  exact arithmetic, \<open>whole\<close>, with which doubles agree on every number that occurs.
\<close>

definition no_unicode :: "js_string \<Rightarrow> js_string" where
  "no_unicode r = r"

definition whole :: "int \<Rightarrow> int" where
  "whole a = a"

definition whole_falsy :: "int \<Rightarrow> bool" where
  "whole_falsy a = (a = 0)"

definition trader_alice :: app_user where
  "trader_alice =
     \<lparr>ident = ''t1'', username = ''alice'', role = ''trader'', currency = ''USD'',
      trader_uid = Some (ascii ''ABC12345'')\<rparr>"

definition investor_bob :: app_user where
  "investor_bob =
     \<lparr>ident = ''i1'', username = ''bob'', role = ''investor'', currency = ''USD'',
      trader_uid = None\<rparr>"

definition trade_a :: "(int \<Rightarrow> 'n) \<Rightarrow> 'n trade" where
  "trade_a lit =
     \<lparr>trade_ident = ''a'', user_id = ''t1'', asset = ''BTC'', category = ''crypto'',
      price = lit 100, quantity = lit 2, profit_loss = Some (lit 10), created_at = 2\<rparr>"

definition trade_b :: "(int \<Rightarrow> 'n) \<Rightarrow> 'n trade" where
  "trade_b lit =
     \<lparr>trade_ident = ''b'', user_id = ''t1'', asset = ''ETH'', category = ''crypto'',
      price = lit 50, quantity = lit 1, profit_loss = Some (lit (- 5)), created_at = 1\<rparr>"

text \<open>
  \<open>example_store\<close> holds the ledger of the specification's example, stored oldest
  first, and no binding; \<open>bound_store\<close> is the same store once the investor holds a
  binding.
\<close>

definition example_store :: "(int \<Rightarrow> 'n) \<Rightarrow> 'n backend" where
  "example_store lit =
     \<lparr>users_table = [trader_alice, investor_bob], bindings_table = [],
      trades_table = [trade_b lit, trade_a lit], requests = []\<rparr>"

definition bound_store :: "(int \<Rightarrow> 'n) \<Rightarrow> 'n backend" where
  "bound_store lit =
     (example_store lit)\<lparr>bindings_table :=
       [\<lparr>trader_id = ''t1'', investor_id = ''i1'', status = approved\<rparr>]\<rparr>"

section \<open>Properties\<close>

subsection \<open>Strings\<close>

lemmas string_defs =
  ascii_def trim_def is_space_def white_space_def is_ascii_def upper_ascii_def
  lower_letters_def upper_letters_def

lemma upper_ascii_idem: "upper_ascii (upper_ascii c) = upper_ascii c"
  by (simp add: upper_ascii_def lower_letters_def upper_letters_def ascii_def)

lemma is_space_upper: "is_space (upper_ascii c) = is_space c"
  by (simp add: upper_ascii_def lower_letters_def upper_letters_def is_space_def
      white_space_def ascii_def)

lemma is_ascii_upper: "is_ascii (upper_ascii c) = is_ascii c"
  by (simp add: upper_ascii_def lower_letters_def upper_letters_def is_ascii_def ascii_def)

lemma upper_ascii_non_ascii: "\<not> is_ascii c \<Longrightarrow> upper_ascii c = c"
  by (auto simp add: upper_ascii_def lower_letters_def upper_letters_def is_ascii_def
      ascii_def)

text \<open>On a string of ASCII code units the tables of Unicode are not consulted.\<close>

lemma toUpperCase_ascii: "list_all is_ascii s \<Longrightarrow> toUpperCase U s = map upper_ascii s"
  by (induction s) simp_all

text \<open>A run of code units outside ASCII is left to them as a whole.\<close>

lemma toUpperCase_run:
  assumes "list_all (\<lambda>x. \<not> is_ascii x) (c # s)"
  shows "toUpperCase U (c # s) = U (c # s)"
proof -
  from assms have c: "\<not> is_ascii c" and s: "\<forall>x\<in>set s. \<not> is_ascii x"
    by (simp_all add: list_all_iff)
  from s have t: "takeWhile (\<lambda>x. \<not> is_ascii x) s = s"
    by (simp only: takeWhile_eq_all_conv)
  from s have d: "dropWhile (\<lambda>x. \<not> is_ascii x) s = []"
    by (simp only: dropWhile_eq_Nil_conv)
  show ?thesis
    by (simp only: toUpperCase.simps c t d if_False append_Nil2)
qed

lemma same_letter_upper: "same_letter a b \<Longrightarrow> upper_ascii a = upper_ascii b"
  unfolding same_letter_def using upper_ascii_idem by metis

lemma same_letter_space: "same_letter a b \<Longrightarrow> is_space a = is_space b"
  unfolding same_letter_def using is_space_upper by metis

lemma same_letter_ascii: "same_letter a b \<Longrightarrow> is_ascii a = is_ascii b"
  unfolding same_letter_def using is_ascii_upper by metis

lemma same_letter_non_ascii: "same_letter a b \<Longrightarrow> \<not> is_ascii a \<Longrightarrow> a = b"
  unfolding same_letter_def using is_ascii_upper upper_ascii_non_ascii by metis

lemma same_dropWhile:
  "list_all2 same_letter s t \<Longrightarrow>
   list_all2 same_letter (dropWhile is_space s) (dropWhile is_space t)"
  by (induction rule: list_all2_induct) (auto dest: same_letter_space)

lemma same_run:
  "list_all2 same_letter s t \<Longrightarrow>
   takeWhile (\<lambda>x. \<not> is_ascii x) s = takeWhile (\<lambda>x. \<not> is_ascii x) t"
  by (induction rule: list_all2_induct)
     (auto dest: same_letter_ascii same_letter_non_ascii)

lemma same_after_run:
  "list_all2 same_letter s t \<Longrightarrow>
   list_all2 same_letter (dropWhile (\<lambda>x. \<not> is_ascii x) s)
     (dropWhile (\<lambda>x. \<not> is_ascii x) t)"
  by (induction rule: list_all2_induct) (auto dest: same_letter_ascii)

lemma same_upper: "differ_only_in_case s t \<Longrightarrow> toUpperCase U s = toUpperCase U t"
  unfolding differ_only_in_case_def
proof (induction U s arbitrary: t rule: toUpperCase.induct)
  case (1 U)
  then show ?case by simp
next
  case (2 U c s)
  from "2.prems" obtain c' t' where t: "t = c' # t'" and c: "same_letter c c'"
    and r: "list_all2 same_letter s t'"
    by (cases t) auto
  show ?case
  proof (cases "is_ascii c")
    case True
    with c have "is_ascii c'" by (simp add: same_letter_ascii)
    with True t c r "2.IH"(1) show ?thesis
      by (simp add: same_letter_upper)
  next
    case False
    with c have e: "c' = c" using same_letter_non_ascii by blast
    from False t e r "2.IH"(2) [OF False same_after_run [OF r]] show ?thesis
      by (simp add: same_run [OF r])
  qed
qed

lemma same_trim: "differ_only_in_case s t \<Longrightarrow> differ_only_in_case (trim s) (trim t)"
  unfolding differ_only_in_case_def trim_def
  by (simp add: same_dropWhile)

lemma same_key:
  "differ_only_in_case s t \<Longrightarrow> toUpperCase U (trim s) = toUpperCase U (trim t)"
  by (simp add: same_trim same_upper)

lemma same_blank: "differ_only_in_case s t \<Longrightarrow> (trim s = []) = (trim t = [])"
  using same_trim[of s t] by (auto simp: differ_only_in_case_def)

subsection \<open>The ledger query\<close>

lemma foldl_running_sum:
  "foldl (\<lambda>sum x. sum + f x) 0 xs = running_sum (map f xs)"
  by (simp add: running_sum_def foldl_map)

text \<open>Where addition is associative with unit 0, the running sum is the sum.\<close>

lemma running_sum_exact: "running_sum xs = sum_list xs" for xs :: "'a::monoid_add list"
proof -
  have "foldl (+) a xs = a + sum_list xs" for a :: 'a
    by (induction xs arbitrary: a) (simp_all add: add.assoc)
  then show ?thesis
    by (simp add: running_sum_def)
qed

lemma ledger_example: "ledger (example_store lit) ''t1'' = [trade_a lit, trade_b lit]"
  by (simp add: ledger_def example_store_def trade_a_def trade_b_def)

lemma ledger_mset:
  "mset (ledger b traderId) = mset (filter (\<lambda>t. user_id t = traderId) (trades_table b))"
  by (simp add: ledger_def)

lemma ledger_descending:
  "sorted_wrt (\<lambda>x y. created_at y \<le> created_at x) (ledger b traderId)"
proof -
  have "sorted (map created_at
          (sort_key created_at (filter (\<lambda>t. user_id t = traderId) (trades_table b))))"
    by simp
  then have "sorted_wrt (\<lambda>x y. created_at x \<le> created_at y)
      (sort_key created_at (filter (\<lambda>t. user_id t = traderId) (trades_table b)))"
    by (simp only: sorted_map)
  then show ?thesis
    by (simp add: ledger_def sorted_wrt_rev)
qed

subsection \<open>Loading the trader's data\<close>

lemma fetch_reachable:
  "fetchTraderData falsy Reachable traderId (d, b) =
     (d\<lparr>traderStats :=
          \<lparr>totalTrades = length (ledger b traderId),
           totalValue =
             running_sum (map (\<lambda>trade. price trade * quantity trade) (ledger b traderId)),
           totalPnL =
             running_sum (map (\<lambda>trade. or_zero falsy (profit_loss trade)) (ledger b traderId))\<rparr>,
        recentTrades := take 5 (ledger b traderId)\<rparr>,
      b\<lparr>requests := requests b @ [SelectTrades traderId]\<rparr>)"
  by (simp add: fetchTraderData_def select_trades_def foldl_running_sum)

lemma fetch_failed:
  "f \<noteq> Reachable \<Longrightarrow>
   fetchTraderData falsy f traderId (d, b) =
     (case f of
        Throw m \<Rightarrow> d\<lparr>console := console d @ [(''Error fetching trader data:'', m)]\<rparr>
      | _ \<Rightarrow> d,
      b\<lparr>requests := requests b @ [SelectTrades traderId]\<rparr>)"
  by (cases f) (simp_all add: fetchTraderData_def select_trades_def)

lemma whole_exact: "exact_on_integers whole whole_falsy"
  by (simp add: exact_on_integers_def whole_def whole_falsy_def)

text \<open>The figures of the example, in any arithmetic that is exact on whole numbers.\<close>

lemma example_totals:
  assumes "exact_on_integers lit falsy"
  shows "running_sum (map (\<lambda>trade. price trade * quantity trade) [trade_a lit, trade_b lit]) =
           lit 250"
    and "running_sum (map (\<lambda>trade. or_zero falsy (profit_loss trade))
           [trade_a lit, trade_b lit]) = lit 5"
proof -
  from assms have z: "lit 0 = 0"
    and add: "\<And>a b. \<bar>a\<bar> \<le> 2 ^ 53 \<Longrightarrow> \<bar>b\<bar> \<le> 2 ^ 53 \<Longrightarrow> \<bar>a + b\<bar> \<le> 2 ^ 53 \<Longrightarrow>
            lit a + lit b = lit (a + b)"
    and mul: "\<And>a b. a \<noteq> 0 \<Longrightarrow> b \<noteq> 0 \<Longrightarrow> \<bar>a\<bar> \<le> 2 ^ 53 \<Longrightarrow> \<bar>b\<bar> \<le> 2 ^ 53 \<Longrightarrow>
            \<bar>a * b\<bar> \<le> 2 ^ 53 \<Longrightarrow> lit a * lit b = lit (a * b)"
    and fal: "\<And>a. \<bar>a\<bar> \<le> 2 ^ 53 \<Longrightarrow> falsy (lit a) = (a = 0)"
    by (simp_all add: exact_on_integers_def)
  have m1: "lit 100 * lit 2 = lit 200"
    using mul [of 100 2] by simp
  have m2: "lit 50 * lit 1 = lit 50"
    using mul [of 50 1] by simp
  have a1: "0 + lit 200 = lit 200"
    using add [of 0 200] by (simp add: z)
  have a2: "lit 200 + lit 50 = lit 250"
    using add [of 200 50] by simp
  have a3: "0 + lit 10 = lit 10"
    using add [of 0 10] by (simp add: z)
  have a4: "lit 10 + lit (- 5) = lit 5"
    using add [of 10 "- 5"] by simp
  have f1: "\<not> falsy (lit 10)"
    using fal [of 10] by simp
  have f2: "\<not> falsy (lit (- 5))"
    using fal [of "- 5"] by simp
  show "running_sum (map (\<lambda>trade. price trade * quantity trade) [trade_a lit, trade_b lit]) =
           lit 250"
    by (simp add: running_sum_def trade_a_def trade_b_def m1 m2 a1 a2)
  show "running_sum (map (\<lambda>trade. or_zero falsy (profit_loss trade))
           [trade_a lit, trade_b lit]) = lit 5"
    by (simp add: running_sum_def trade_a_def trade_b_def or_zero_def f1 f2 a3 a4)
qed

text \<open>
  C2. When the ledger is retrieved, \<open>totalTrades\<close> is the number of retrieved trades,
  \<open>totalValue\<close> the sum over all of them of price times quantity, and \<open>totalPnL\<close> the
  sum over all of them of the profit or loss, an absent one counting as zero (as does one
  that is zero or NaN); the sums are taken in the arithmetic of the numbers, from 0 and in
  the order of the ledger. For the ledger of the example (100 x 2 with +10, then 50 x 1
  with -5) the figures are 2, 250 and 5 in every arithmetic that is exact on whole
  numbers, as that of doubles is.
\<close>

theorem stats_totals:
  "traderStats (fst (fetchTraderData falsy Reachable traderId (d, b))) =
     \<lparr>totalTrades = length (ledger b traderId),
      totalValue =
        running_sum (map (\<lambda>trade. price trade * quantity trade) (ledger b traderId)),
      totalPnL =
        running_sum
          (map (\<lambda>trade. case profit_loss trade of
                            None \<Rightarrow> 0
                          | Some p \<Rightarrow> if falsy p then 0 else p) (ledger b traderId))\<rparr>
   \<and> (exact_on_integers lit falsy \<longrightarrow>
        ledger (example_store lit) ''t1'' = [trade_a lit, trade_b lit]
        \<and> traderStats (fst (fetchTraderData falsy Reachable ''t1'' (d, example_store lit))) =
            \<lparr>totalTrades = 2, totalValue = lit 250, totalPnL = lit 5\<rparr>)"
proof -
  have o: "or_zero falsy = (\<lambda>v. case v of None \<Rightarrow> 0 | Some p \<Rightarrow> if falsy p then 0 else p)"
    by (rule ext) (simp add: or_zero_def)
  have "traderStats (fst (fetchTraderData falsy Reachable ''t1'' (d, example_store lit))) =
            \<lparr>totalTrades = 2, totalValue = lit 250, totalPnL = lit 5\<rparr>"
    if "exact_on_integers lit falsy"
    using example_totals [OF that] by (simp add: fetch_reachable ledger_example)
  then show ?thesis
    by (simp add: fetch_reachable ledger_example o)
qed

theorem stats_totals_witness:
  "exact_on_integers whole whole_falsy
   \<and> traderStats (fst (fetchTraderData whole_falsy Reachable ''t1''
        (mounted, example_store whole))) =
       \<lparr>totalTrades = 2, totalValue = 250, totalPnL = 5\<rparr>"
proof -
  have e: "exact_on_integers whole whole_falsy"
    by (rule whole_exact)
  with stats_totals [of whole_falsy "''t1''" mounted "example_store whole" whole]
  have "traderStats (fst (fetchTraderData whole_falsy Reachable ''t1''
        (mounted, example_store whole))) =
       \<lparr>totalTrades = 2, totalValue = whole 250, totalPnL = whole 5\<rparr>"
    by blast
  with e show ?thesis
    by (simp add: whole_def)
qed

text \<open>
  C5. The recent trades are the first five of the retrieved ledger: never more than
  five, all of the ledger when it has no more than five, and always a prefix of it; and
  the retrieved ledger is the trader's trades in descending order of creation time.
\<close>

theorem recent_is_prefix:
  "recentTrades (fst (fetchTraderData falsy Reachable traderId (d, b))) =
     take 5 (ledger b traderId)
   \<and> length (recentTrades (fst (fetchTraderData falsy Reachable traderId (d, b)))) \<le> 5
   \<and> prefix (recentTrades (fst (fetchTraderData falsy Reachable traderId (d, b))))
       (ledger b traderId)
   \<and> (length (ledger b traderId) \<le> 5 \<longrightarrow>
        recentTrades (fst (fetchTraderData falsy Reachable traderId (d, b))) =
          ledger b traderId)
   \<and> sorted_wrt (\<lambda>x y. created_at y \<le> created_at x) (ledger b traderId)
   \<and> mset (ledger b traderId) =
       mset (filter (\<lambda>t. user_id t = traderId) (trades_table b))"
  by (simp add: fetch_reachable take_is_prefix ledger_descending ledger_mset)

theorem recent_is_prefix_witness:
  "length (ledger (example_store whole) ''t1'') \<le> 5
   \<and> recentTrades (fst (fetchTraderData whole_falsy Reachable ''t1''
        (mounted, example_store whole))) = [trade_a whole, trade_b whole]
   \<and> prefix [trade_a whole, trade_b whole] (ledger (example_store whole) ''t1'')"
  using recent_is_prefix [of whole_falsy "''t1''" mounted "example_store whole"]
  by (simp add: ledger_example)

text \<open>
  C7. When the retrieved ledger is empty, the statistics are all zero and the recent
  list is empty, whatever the component showed before.
\<close>

theorem empty_ledger_stats:
  assumes "ledger b traderId = []"
  shows "traderStats (fst (fetchTraderData falsy Reachable traderId (d, b))) =
           \<lparr>totalTrades = 0, totalValue = 0, totalPnL = 0\<rparr>
         \<and> recentTrades (fst (fetchTraderData falsy Reachable traderId (d, b))) = []"
  using assms by (simp add: fetch_reachable running_sum_def)

theorem empty_ledger_stats_witness:
  "ledger (example_store whole) ''t2'' = []
   \<and> traderStats (fst (fetchTraderData whole_falsy Reachable ''t2''
        (fst (fetchTraderData whole_falsy Reachable ''t1'' (mounted, example_store whole)),
         example_store whole))) =
       \<lparr>totalTrades = 0, totalValue = 0, totalPnL = 0\<rparr>
   \<and> recentTrades (fst (fetchTraderData whole_falsy Reachable ''t2''
        (fst (fetchTraderData whole_falsy Reachable ''t1'' (mounted, example_store whole)),
         example_store whole))) = []"
proof -
  have e: "ledger (example_store whole) ''t2'' = []"
    by (simp add: ledger_def example_store_def trade_a_def trade_b_def)
  show ?thesis
    using e empty_ledger_stats [OF e, of whole_falsy] by simp
qed

text \<open>
  C9, as stated, fails: a read that fails after an earlier load has succeeded leaves the
  figures of that load on display, not zeros; and a failure that comes back as an error
  object with null data is not written to the console.
\<close>

theorem failed_read_stale_stats:
  "traderStats (fst (fetchTraderData whole_falsy (Throw ''Failed to fetch'') ''t1''
       (fetchTraderData whole_falsy Reachable ''t1'' (mounted, example_store whole)))) =
     \<lparr>totalTrades = 2, totalValue = 250, totalPnL = 5\<rparr>
   \<and> recentTrades (fst (fetchTraderData whole_falsy (Throw ''Failed to fetch'') ''t1''
       (fetchTraderData whole_falsy Reachable ''t1'' (mounted, example_store whole)))) =
     [trade_a whole, trade_b whole]
   \<and> traderStats (fst (fetchTraderData whole_falsy
         (ErrorReply \<lparr>code = ''57014'', message = ''timeout''\<rparr>) ''t1''
       (fetchTraderData whole_falsy Reachable ''t1'' (mounted, example_store whole)))) =
     \<lparr>totalTrades = 2, totalValue = 250, totalPnL = 5\<rparr>
   \<and> console (fst (fetchTraderData whole_falsy
         (ErrorReply \<lparr>code = ''57014'', message = ''timeout''\<rparr>) ''t1''
       (fetchTraderData whole_falsy Reachable ''t1'' (mounted, example_store whole)))) = []"
  using example_totals [OF whole_exact]
  by (simp add: fetch_failed fetch_reachable ledger_example whole_def mounted_def)

text \<open>
  C9, amended. A read that fails, by an error object or by an exception, leaves the
  statistics and the recent list as they were, and changes nothing else of the component
  but the console: on a freshly mounted component they are the zero totals and the empty
  list. The function returns in every case, and an exception is written to the console.
\<close>

theorem failed_read_keeps_stats:
  assumes "f \<noteq> Reachable"
  shows "traderStats (fst (fetchTraderData falsy f traderId (d, b))) = traderStats d
       \<and> recentTrades (fst (fetchTraderData falsy f traderId (d, b))) = recentTrades d
       \<and> (fst (fetchTraderData falsy f traderId (d, b)))\<lparr>console := []\<rparr> = d\<lparr>console := []\<rparr>
       \<and> traderStats (fst (fetchTraderData falsy f traderId (mounted, b))) =
           \<lparr>totalTrades = 0, totalValue = 0, totalPnL = 0\<rparr>
       \<and> recentTrades (fst (fetchTraderData falsy f traderId (mounted, b))) = []
       \<and> (\<forall>m. f = Throw m \<longrightarrow>
            console (fst (fetchTraderData falsy f traderId (d, b))) =
              console d @ [(''Error fetching trader data:'', m)])"
  using assms by (cases f) (simp_all add: fetch_failed mounted_def)

theorem failed_read_keeps_stats_witness:
  "Throw ''Failed to fetch'' \<noteq> Reachable
   \<and> traderStats (fst (fetchTraderData whole_falsy (Throw ''Failed to fetch'') ''t1''
        (mounted, example_store whole))) =
       \<lparr>totalTrades = 0, totalValue = 0, totalPnL = 0\<rparr>
   \<and> recentTrades (fst (fetchTraderData whole_falsy (Throw ''Failed to fetch'') ''t1''
        (mounted, example_store whole))) = []
   \<and> console (fst (fetchTraderData whole_falsy (Throw ''Failed to fetch'') ''t1''
        (mounted, example_store whole))) =
       [(''Error fetching trader data:'', ''Failed to fetch'')]"
proof -
  have h: "Throw ''Failed to fetch'' \<noteq> Reachable" by simp
  show ?thesis
    using h failed_read_keeps_stats [OF h, of whole_falsy "''t1''" mounted "example_store whole"]
    by (simp add: mounted_def)
qed

subsection \<open>The branches of the binding request\<close>

lemma handle_blank:
  "trim (traderUid d) = [] \<Longrightarrow>
   handleBindingRequest U lf insf profile (d, b) = (d\<lparr>toasts := toasts d @ [toast_enter_uid]\<rparr>, b)"
  by (simp add: handleBindingRequest_def show_toast_def)

lemma handle_lookup_throws:
  "trim (traderUid d) \<noteq> [] \<Longrightarrow>
   handleBindingRequest U (Throw m) insf profile (d, b) =
     (d\<lparr>submitting := False, toasts := toasts d @ [toast_error m]\<rparr>,
      b\<lparr>requests := requests b @ [SelectTrader (toUpperCase U (trim (traderUid d)))]\<rparr>)"
  by (simp add: handleBindingRequest_def select_trader_def show_toast_def catch_error_def
      finally_block_def)

lemma handle_lookup_error:
  "trim (traderUid d) \<noteq> [] \<Longrightarrow>
   handleBindingRequest U (ErrorReply e) insf profile (d, b) =
     (d\<lparr>submitting := False, toasts := toasts d @ [toast_trader_not_found]\<rparr>,
      b\<lparr>requests := requests b @ [SelectTrader (toUpperCase U (trim (traderUid d)))]\<rparr>)"
  by (simp add: handleBindingRequest_def select_trader_def show_toast_def finally_block_def)

lemma handle_no_match:
  assumes "trim (traderUid d) \<noteq> []"
      and "\<And>t. traders_with_code b (toUpperCase U (trim (traderUid d))) \<noteq> [t]"
  shows "handleBindingRequest U Reachable insf profile (d, b) =
     (d\<lparr>submitting := False, toasts := toasts d @ [toast_trader_not_found]\<rparr>,
      b\<lparr>requests := requests b @ [SelectTrader (toUpperCase U (trim (traderUid d)))]\<rparr>)"
proof (cases "traders_with_code b (toUpperCase U (trim (traderUid d)))")
  case Nil
  with assms(1) show ?thesis
    by (simp add: handleBindingRequest_def select_trader_def show_toast_def finally_block_def)
next
  case (Cons u us)
  with assms(2) obtain v vs where "us = v # vs"
    by (cases us) auto
  with Cons assms(1) show ?thesis
    by (simp add: handleBindingRequest_def select_trader_def show_toast_def finally_block_def)
qed

lemma handle_match:
  "trim (traderUid d) \<noteq> [] \<Longrightarrow>
   traders_with_code b (toUpperCase U (trim (traderUid d))) = [t] \<Longrightarrow>
   handleBindingRequest U Reachable insf profile (d, b) =
     (case insert_binding insf
             (b\<lparr>requests := requests b @ [SelectTrader (toUpperCase U (trim (traderUid d)))]\<rparr>)
             (ident t) (map_option ident profile) of
        (Rejected m, b2) \<Rightarrow> (d\<lparr>submitting := False, toasts := toasts d @ [toast_error m]\<rparr>, b2)
      | (Resolved x (Some bindingError), b2) \<Rightarrow>
          if code bindingError = ''23505''
          then (d\<lparr>submitting := False, toasts := toasts d @ [toast_already_requested]\<rparr>, b2)
          else (d\<lparr>submitting := False,
                  toasts := toasts d @ [toast_error (message bindingError)]\<rparr>, b2)
      | (Resolved x None, b2) \<Rightarrow>
          (d\<lparr>traderUid := [], boundTrader := Some t, bindingStatus := pending,
             submitting := False, toasts := toasts d @ [toast_request_sent t]\<rparr>, b2))"
  by (simp add: handleBindingRequest_def select_trader_def show_toast_def finally_block_def
      catch_error_def split: prod.splits reply.splits option.splits)

lemma holds_binding_requests [simp]:
  "holds_binding (b\<lparr>requests := r\<rparr>) i = holds_binding b i"
  by (simp add: holds_binding_def)

lemma insert_held:
  "holds_binding b i \<Longrightarrow>
   insert_binding Reachable b t (Some i) =
     (Resolved None
        (Some \<lparr>code = ''23505'', message = ''duplicate key value violates unique constraint''\<rparr>),
      b\<lparr>requests := requests b @ [InsertBinding t (Some i)]\<rparr>)"
  by (simp add: insert_binding_def)

lemma insert_free:
  "\<not> holds_binding b i \<Longrightarrow>
   insert_binding Reachable b t (Some i) =
     (Resolved None None,
      b\<lparr>requests := requests b @ [InsertBinding t (Some i)],
        bindings_table :=
          bindings_table b @ [\<lparr>trader_id = t, investor_id = i, status = pending\<rparr>]\<rparr>)"
  by (simp add: insert_binding_def)

lemma insert_held_keeps:
  "holds_binding b i \<Longrightarrow>
   bindings_table (snd (insert_binding f b t (Some i))) = bindings_table b"
  by (cases f) (simp_all add: insert_binding_def)

lemma insert_requests:
  "requests (snd (insert_binding f b t i)) = requests b @ [InsertBinding t i]"
  by (cases f; cases i) (simp_all add: insert_binding_def Let_def)

lemma insert_none_inversion:
  assumes "insert_binding insf b t i = (Resolved x None, b2)"
  obtains investor where "insf = Reachable" "i = Some investor" "\<not> holds_binding b investor"
    "b2 = b\<lparr>requests := requests b @ [InsertBinding t i],
            bindings_table :=
              bindings_table b @ [\<lparr>trader_id = t, investor_id = investor, status = pending\<rparr>]\<rparr>"
  using assms
  by (cases insf; cases i) (auto simp: insert_binding_def Let_def split: if_splits)

lemma handle_snd_match:
  assumes "trim (traderUid d) \<noteq> []"
      and "traders_with_code b (toUpperCase U (trim (traderUid d))) = [t]"
  shows "snd (handleBindingRequest U Reachable insf profile (d, b)) =
     snd (insert_binding insf
            (b\<lparr>requests := requests b @ [SelectTrader (toUpperCase U (trim (traderUid d)))]\<rparr>)
            (ident t) (map_option ident profile))"
  by (simp add: handle_match [OF assms] split: prod.splits reply.splits option.splits)

lemma handle_requests:
  assumes "trim (traderUid d) \<noteq> []"
  shows "prefix (requests b @ [SelectTrader (toUpperCase U (trim (traderUid d)))])
           (requests (snd (handleBindingRequest U lf insf profile (d, b))))"
proof (cases lf)
  case (Throw m)
  with assms show ?thesis by (simp add: handle_lookup_throws)
next
  case (ErrorReply e)
  with assms show ?thesis by (simp add: handle_lookup_error)
next
  case Reachable
  show ?thesis
  proof (cases "\<exists>t. traders_with_code b (toUpperCase U (trim (traderUid d))) = [t]")
    case False
    with assms Reachable show ?thesis by (simp add: handle_no_match)
  next
    case True
    then obtain t where "traders_with_code b (toUpperCase U (trim (traderUid d))) = [t]" ..
    with assms Reachable show ?thesis
      by (simp add: handle_snd_match insert_requests)
  qed
qed

lemma handle_held_keeps:
  assumes "holds_binding b (ident p)"
  shows "bindings_table (snd (handleBindingRequest U lf insf (Some p) (d, b))) = bindings_table b"
proof (cases "trim (traderUid d) = []")
  case True
  then show ?thesis by (simp add: handle_blank)
next
  case False
  show ?thesis
  proof (cases lf)
    case (Throw m)
    with False show ?thesis by (simp add: handle_lookup_throws)
  next
    case (ErrorReply e)
    with False show ?thesis by (simp add: handle_lookup_error)
  next
    case Reachable
    show ?thesis
    proof (cases "\<exists>t. traders_with_code b (toUpperCase U (trim (traderUid d))) = [t]")
      case no: False
      with False Reachable show ?thesis by (simp add: handle_no_match)
    next
      case True
      then obtain t where "traders_with_code b (toUpperCase U (trim (traderUid d))) = [t]" ..
      with False Reachable assms show ?thesis
        by (simp add: handle_snd_match insert_held_keeps)
    qed
  qed
qed

lemma destructive_toasts:
  "variant toast_enter_uid = Some ''destructive''"
  "variant toast_trader_not_found = Some ''destructive''"
  "variant toast_already_requested = Some ''destructive''"
  "variant (toast_error m) = Some ''destructive''"
  "variant (toast_request_sent t) = None"
  by (simp_all add: toast_enter_uid_def toast_trader_not_found_def toast_already_requested_def
      toast_error_def toast_request_sent_def)

lemma handle_shape:
  obtains (failure) s t where
      "fst (handleBindingRequest U lf insf profile (d, b)) =
         d\<lparr>submitting := s, toasts := toasts d @ [t]\<rparr>"
      "variant t = Some ''destructive''"
    | (success) t where
      "fst (handleBindingRequest U lf insf profile (d, b)) =
         d\<lparr>traderUid := [], boundTrader := Some t, bindingStatus := pending,
           submitting := False, toasts := toasts d @ [toast_request_sent t]\<rparr>"
proof (cases "trim (traderUid d) = []")
  case True
  show ?thesis
  proof (rule failure)
    show "fst (handleBindingRequest U lf insf profile (d, b)) =
        d\<lparr>submitting := submitting d, toasts := toasts d @ [toast_enter_uid]\<rparr>"
      using True by (simp add: handle_blank)
  qed (rule destructive_toasts)
next
  case False
  let ?key = "toUpperCase U (trim (traderUid d))"
  show ?thesis
  proof (cases lf)
    case (Throw m)
    show ?thesis
    proof (rule failure)
      show "fst (handleBindingRequest U lf insf profile (d, b)) =
          d\<lparr>submitting := False, toasts := toasts d @ [toast_error m]\<rparr>"
        using False Throw by (simp add: handle_lookup_throws)
    qed (rule destructive_toasts)
  next
    case (ErrorReply e)
    show ?thesis
    proof (rule failure)
      show "fst (handleBindingRequest U lf insf profile (d, b)) =
          d\<lparr>submitting := False, toasts := toasts d @ [toast_trader_not_found]\<rparr>"
        using False ErrorReply by (simp add: handle_lookup_error)
    qed (rule destructive_toasts)
  next
    case Reachable
    show ?thesis
    proof (cases "\<exists>t. traders_with_code b ?key = [t]")
      case no: False
      show ?thesis
      proof (rule failure)
        show "fst (handleBindingRequest U lf insf profile (d, b)) =
            d\<lparr>submitting := False, toasts := toasts d @ [toast_trader_not_found]\<rparr>"
          using False Reachable no by (simp add: handle_no_match)
      qed (rule destructive_toasts)
    next
      case True
      then obtain t where t: "traders_with_code b ?key = [t]" ..
      note m = handle_match [OF False t, of insf profile]
      obtain r b2 where ins:
        "insert_binding insf (b\<lparr>requests := requests b @ [SelectTrader ?key]\<rparr>)
           (ident t) (map_option ident profile) = (r, b2)"
        by (cases "insert_binding insf (b\<lparr>requests := requests b @ [SelectTrader ?key]\<rparr>)
           (ident t) (map_option ident profile)")
      show ?thesis
      proof (cases r)
        case (Rejected msg)
        show ?thesis
        proof (rule failure)
          show "fst (handleBindingRequest U lf insf profile (d, b)) =
              d\<lparr>submitting := False, toasts := toasts d @ [toast_error msg]\<rparr>"
            using m ins Reachable Rejected by simp
        qed (rule destructive_toasts)
      next
        case (Resolved x err)
        show ?thesis
        proof (cases err)
          case None
          show ?thesis
          proof (rule success)
            show "fst (handleBindingRequest U lf insf profile (d, b)) =
                d\<lparr>traderUid := [], boundTrader := Some t, bindingStatus := pending,
                  submitting := False, toasts := toasts d @ [toast_request_sent t]\<rparr>"
              using m ins Reachable Resolved None by simp
          qed
        next
          case (Some bindingError)
          show ?thesis
          proof (cases "code bindingError = ''23505''")
            case True
            show ?thesis
            proof (rule failure)
              show "fst (handleBindingRequest U lf insf profile (d, b)) =
                  d\<lparr>submitting := False, toasts := toasts d @ [toast_already_requested]\<rparr>"
                using m ins Reachable Resolved Some True by simp
            qed (rule destructive_toasts)
          next
            case other: False
            show ?thesis
            proof (rule failure)
              show "fst (handleBindingRequest U lf insf profile (d, b)) =
                  d\<lparr>submitting := False,
                    toasts := toasts d @ [toast_error (message bindingError)]\<rparr>"
                using m ins Reachable Resolved Some other by simp
            qed (rule destructive_toasts)
          qed
        qed
      qed
    qed
  qed
qed

lemma not_succeeded:
  "variant t = Some ''destructive'' \<Longrightarrow>
   \<not> succeeded d (d\<lparr>submitting := s, toasts := toasts d @ [t]\<rparr>)"
  by (auto simp: succeeded_def toast_request_sent_def split: option.splits)

lemma success_inversion:
  assumes "succeeded d (fst (handleBindingRequest U lf insf profile (d, b)))"
  obtains t x b2 where
    "trim (traderUid d) \<noteq> []" "lf = Reachable"
    "traders_with_code b (toUpperCase U (trim (traderUid d))) = [t]"
    "insert_binding insf
       (b\<lparr>requests := requests b @ [SelectTrader (toUpperCase U (trim (traderUid d)))]\<rparr>)
       (ident t) (map_option ident profile) = (Resolved x None, b2)"
    "handleBindingRequest U lf insf profile (d, b) =
       (d\<lparr>traderUid := [], boundTrader := Some t, bindingStatus := pending,
          submitting := False, toasts := toasts d @ [toast_request_sent t]\<rparr>, b2)"
proof -
  let ?key = "toUpperCase U (trim (traderUid d))"
  have nb: "trim (traderUid d) \<noteq> []"
  proof
    assume "trim (traderUid d) = []"
    then have "fst (handleBindingRequest U lf insf profile (d, b)) =
        d\<lparr>submitting := submitting d, toasts := toasts d @ [toast_enter_uid]\<rparr>"
      by (simp add: handle_blank)
    with assms show False
      by (simp add: succeeded_def toast_enter_uid_def toast_request_sent_def
          split: option.splits)
  qed
  have lf: "lf = Reachable"
  proof (cases lf)
    case (Throw m)
    with nb assms show ?thesis
      by (simp add: handle_lookup_throws not_succeeded destructive_toasts)
  next
    case (ErrorReply e)
    with nb assms show ?thesis
      by (simp add: handle_lookup_error not_succeeded destructive_toasts)
  qed
  have "\<exists>t. traders_with_code b ?key = [t]"
  proof (rule ccontr)
    assume "\<not> ?thesis"
    with nb lf assms show False
      by (simp add: handle_no_match not_succeeded destructive_toasts)
  qed
  then obtain t where t: "traders_with_code b ?key = [t]" ..
  note m = handle_match [OF nb t, of insf profile]
  obtain r b2 where ins:
    "insert_binding insf (b\<lparr>requests := requests b @ [SelectTrader ?key]\<rparr>)
       (ident t) (map_option ident profile) = (r, b2)"
    by (cases "insert_binding insf (b\<lparr>requests := requests b @ [SelectTrader ?key]\<rparr>)
       (ident t) (map_option ident profile)")
  have "\<exists>x. r = Resolved x None"
  proof (cases r)
    case (Rejected msg)
    with m ins lf assms show ?thesis
      by (simp add: not_succeeded destructive_toasts)
  next
    case (Resolved x err)
    show ?thesis
    proof (cases err)
      case None
      with Resolved show ?thesis by simp
    next
      case (Some bindingError)
      with m ins lf assms Resolved show ?thesis
        by (simp add: not_succeeded destructive_toasts split: if_splits)
    qed
  qed
  then obtain x where r: "r = Resolved x None" ..
  show ?thesis
  proof (rule that [OF nb lf t])
    show "insert_binding insf (b\<lparr>requests := requests b @ [SelectTrader ?key]\<rparr>)
       (ident t) (map_option ident profile) = (Resolved x None, b2)"
      using ins r by simp
    show "handleBindingRequest U lf insf profile (d, b) =
       (d\<lparr>traderUid := [], boundTrader := Some t, bindingStatus := pending,
          submitting := False, toasts := toasts d @ [toast_request_sent t]\<rparr>, b2)"
      using m ins r lf by simp
  qed
qed

text \<open>
  A call does succeed when the code is not blank and resolves to one trader, the investor
  holds no binding, and both requests reach the store.
\<close>

lemma request_succeeds:
  assumes "trim (traderUid d) \<noteq> []"
      and "traders_with_code b (toUpperCase U (trim (traderUid d))) = [t]"
      and "\<not> holds_binding b (ident p)"
  shows "succeeded d (fst (handleBindingRequest U Reachable Reachable (Some p) (d, b)))"
  using assms(3)
  by (simp add: handle_match [OF assms(1,2)] insert_free succeeded_def)

subsection \<open>Runs on the example store\<close>

lemma key_abc: "toUpperCase U (trim (ascii ''abc12345'')) = ascii ''ABC12345''"
  by (simp add: string_defs)

lemma key_capitals: "toUpperCase U (trim (ascii ''ABC12345'')) = ascii ''ABC12345''"
  by (simp add: string_defs)

lemma key_zzz: "toUpperCase U (trim (ascii ''ZZZ99999'')) = ascii ''ZZZ99999''"
  by (simp add: string_defs)

lemma key_malformed: "toUpperCase U (trim (ascii ''ab!'')) = ascii ''AB!''"
  by (simp add: string_defs)

lemma not_blank:
  "trim (ascii ''abc12345'') \<noteq> []"
  "trim (ascii ''ABC12345'') \<noteq> []"
  "trim (ascii ''ZZZ99999'') \<noteq> []"
  "trim (ascii ''ab!'') \<noteq> []"
  by (simp_all add: string_defs)

lemma blank:
  "trim (ascii '' '') = []"
  "trim [0x00A0, 0x3000] = []"
  by (simp_all add: string_defs)

lemma alice_by_code: "traders_with_code (example_store lit) (ascii ''ABC12345'') = [trader_alice]"
  by (simp add: traders_with_code_def example_store_def trader_alice_def investor_bob_def)

lemma alice_by_code_bound:
  "traders_with_code (bound_store lit) (ascii ''ABC12345'') = [trader_alice]"
  by (simp add: traders_with_code_def bound_store_def example_store_def trader_alice_def
      investor_bob_def)

lemma nobody_by_code:
  "traders_with_code (example_store lit) (ascii ''ZZZ99999'') = []"
  "traders_with_code (bound_store lit) (ascii ''ZZZ99999'') = []"
  "traders_with_code (example_store lit) (ascii ''AB!'') = []"
  by (simp_all add: traders_with_code_def bound_store_def example_store_def trader_alice_def
      investor_bob_def ascii_def)

lemma bob_unbound: "\<not> holds_binding (example_store lit) (ident investor_bob)"
  by (simp add: holds_binding_def example_store_def)

lemma bob_bound: "holds_binding (bound_store lit) (ident investor_bob)"
  by (simp add: holds_binding_def bound_store_def example_store_def investor_bob_def)

lemma request_example:
  "handleBindingRequest U Reachable Reachable (Some investor_bob)
     (ready\<lparr>traderUid := ascii ''abc12345''\<rparr>, example_store lit) =
   (ready\<lparr>boundTrader := Some trader_alice, bindingStatus := pending,
      toasts := [toast_request_sent trader_alice]\<rparr>,
    (example_store lit)
      \<lparr>requests := [SelectTrader (ascii ''ABC12345''), InsertBinding ''t1'' (Some ''i1'')],
       bindings_table := [\<lparr>trader_id = ''t1'', investor_id = ''i1'', status = pending\<rparr>]\<rparr>)"
proof -
  have n: "trim (traderUid (ready\<lparr>traderUid := ascii ''abc12345''\<rparr>)) \<noteq> []"
    by (simp add: not_blank)
  have t: "traders_with_code (example_store lit)
      (toUpperCase U (trim (traderUid (ready\<lparr>traderUid := ascii ''abc12345''\<rparr>)))) =
      [trader_alice]"
    by (simp add: key_abc alice_by_code)
  show ?thesis
    using bob_unbound [of lit]
    by (simp add: handle_match [OF n t] key_abc insert_free)
       (simp add: ready_def mounted_def example_store_def trader_alice_def investor_bob_def)
qed

lemma request_example_capitals:
  "handleBindingRequest U Reachable Reachable (Some investor_bob)
     (ready\<lparr>traderUid := ascii ''ABC12345''\<rparr>, example_store lit) =
   (ready\<lparr>boundTrader := Some trader_alice, bindingStatus := pending,
      toasts := [toast_request_sent trader_alice]\<rparr>,
    (example_store lit)
      \<lparr>requests := [SelectTrader (ascii ''ABC12345''), InsertBinding ''t1'' (Some ''i1'')],
       bindings_table := [\<lparr>trader_id = ''t1'', investor_id = ''i1'', status = pending\<rparr>]\<rparr>)"
proof -
  have n: "trim (traderUid (ready\<lparr>traderUid := ascii ''ABC12345''\<rparr>)) \<noteq> []"
    by (simp add: not_blank)
  have t: "traders_with_code (example_store lit)
      (toUpperCase U (trim (traderUid (ready\<lparr>traderUid := ascii ''ABC12345''\<rparr>)))) =
      [trader_alice]"
    by (simp add: key_capitals alice_by_code)
  show ?thesis
    using bob_unbound [of lit]
    by (simp add: handle_match [OF n t] key_capitals insert_free)
       (simp add: ready_def mounted_def example_store_def trader_alice_def investor_bob_def)
qed

lemma unknown_example:
  "handleBindingRequest U Reachable Reachable (Some investor_bob)
     (ready\<lparr>traderUid := ascii ''ZZZ99999''\<rparr>, example_store lit) =
   (ready\<lparr>traderUid := ascii ''ZZZ99999'', toasts := [toast_trader_not_found]\<rparr>,
    (example_store lit)\<lparr>requests := [SelectTrader (ascii ''ZZZ99999'')]\<rparr>)"
proof -
  have n: "trim (traderUid (ready\<lparr>traderUid := ascii ''ZZZ99999''\<rparr>)) \<noteq> []"
    by (simp add: not_blank)
  have t: "\<And>t. traders_with_code (example_store lit)
      (toUpperCase U (trim (traderUid (ready\<lparr>traderUid := ascii ''ZZZ99999''\<rparr>)))) \<noteq> [t]"
    by (simp add: key_zzz nobody_by_code)
  show ?thesis
    by (simp add: handle_no_match [OF n t] key_zzz)
       (simp add: ready_def mounted_def example_store_def)
qed

lemma unknown_example_bound:
  "handleBindingRequest U Reachable Reachable (Some investor_bob)
     (ready\<lparr>traderUid := ascii ''ZZZ99999''\<rparr>, bound_store lit) =
   (ready\<lparr>traderUid := ascii ''ZZZ99999'', toasts := [toast_trader_not_found]\<rparr>,
    (bound_store lit)\<lparr>requests := [SelectTrader (ascii ''ZZZ99999'')]\<rparr>)"
proof -
  have n: "trim (traderUid (ready\<lparr>traderUid := ascii ''ZZZ99999''\<rparr>)) \<noteq> []"
    by (simp add: not_blank)
  have t: "\<And>t. traders_with_code (bound_store lit)
      (toUpperCase U (trim (traderUid (ready\<lparr>traderUid := ascii ''ZZZ99999''\<rparr>)))) \<noteq> [t]"
    by (simp add: key_zzz nobody_by_code)
  show ?thesis
    by (simp add: handle_no_match [OF n t] key_zzz)
       (simp add: ready_def mounted_def bound_store_def example_store_def)
qed

lemma malformed_example:
  "handleBindingRequest U Reachable Reachable (Some investor_bob)
     (ready\<lparr>traderUid := ascii ''ab!''\<rparr>, example_store lit) =
   (ready\<lparr>traderUid := ascii ''ab!'', toasts := [toast_trader_not_found]\<rparr>,
    (example_store lit)\<lparr>requests := [SelectTrader (ascii ''AB!'')]\<rparr>)"
proof -
  have n: "trim (traderUid (ready\<lparr>traderUid := ascii ''ab!''\<rparr>)) \<noteq> []"
    by (simp add: not_blank)
  have t: "\<And>t. traders_with_code (example_store lit)
      (toUpperCase U (trim (traderUid (ready\<lparr>traderUid := ascii ''ab!''\<rparr>)))) \<noteq> [t]"
    by (simp add: key_malformed nobody_by_code)
  show ?thesis
    by (simp add: handle_no_match [OF n t] key_malformed)
       (simp add: ready_def mounted_def example_store_def)
qed

lemma toasts_differ:
  "toast_trader_not_found \<noteq> toast_already_requested"
  "toast_trader_not_found \<noteq> toast_enter_uid"
  by (simp_all add: toast_trader_not_found_def toast_already_requested_def toast_enter_uid_def)

subsection \<open>Requesting a binding\<close>

text \<open>
  C1, as stated, fails: an investor who holds a binding and supplies a code that matches
  no trader is told that the trader was not found, not that a request already exists;
  the insert, and with it the uniqueness check, is never reached. (The form is still
  shown to an investor who holds a binding when the binding was made elsewhere after the
  component had checked for one, as in a double submission.)
\<close>

theorem duplicate_request_unknown_code:
  "holds_binding (bound_store whole) (ident investor_bob)
   \<and> toasts (fst (handleBindingRequest no_unicode Reachable Reachable (Some investor_bob)
        (ready\<lparr>traderUid := ascii ''ZZZ99999''\<rparr>, bound_store whole))) =
       [toast_trader_not_found]
   \<and> toast_trader_not_found \<noteq> toast_already_requested
   \<and> requests (snd (handleBindingRequest no_unicode Reachable Reachable (Some investor_bob)
        (ready\<lparr>traderUid := ascii ''ZZZ99999''\<rparr>, bound_store whole))) =
       [SelectTrader (ascii ''ZZZ99999'')]"
  by (simp add: bob_bound unknown_example_bound toasts_differ)

text \<open>
  C1, amended. For an investor who already holds a binding, no call creates a second
  one, whatever code is supplied and however the requests fare. When the code is not
  blank and resolves to a trader, and both requests reach the store, the call ends with
  the \<^verbatim>\<open>Already requested\<close> toast: the component sends the lookup and then the
  insert, with no read of the bindings in between, and the insert comes back with code
  23505.
\<close>

theorem duplicate_request:
  assumes "holds_binding b (ident p)"
  shows "bindings_table (snd (handleBindingRequest U lf insf (Some p) (d, b))) =
           bindings_table b
     \<and> (trim (traderUid d) \<noteq> [] \<and>
        traders_with_code b (toUpperCase U (trim (traderUid d))) = [t] \<longrightarrow>
          handleBindingRequest U Reachable Reachable (Some p) (d, b) =
            (d\<lparr>submitting := False, toasts := toasts d @ [toast_already_requested]\<rparr>,
             b\<lparr>requests := requests b @
                  [SelectTrader (toUpperCase U (trim (traderUid d))),
                   InsertBinding (ident t) (Some (ident p))]\<rparr>)
          \<and> map_option code
               (case fst (insert_binding Reachable
                      (b\<lparr>requests := requests b @
                           [SelectTrader (toUpperCase U (trim (traderUid d)))]\<rparr>)
                      (ident t) (Some (ident p))) of
                  Resolved x err \<Rightarrow> err | Rejected m \<Rightarrow> None) = Some ''23505'')"
  using assms
  by (simp add: handle_held_keeps handle_match insert_held)

theorem duplicate_request_witness:
  "holds_binding (bound_store whole) (ident investor_bob)
   \<and> trim (ascii ''abc12345'') \<noteq> []
   \<and> traders_with_code (bound_store whole)
        (toUpperCase no_unicode (trim (ascii ''abc12345''))) = [trader_alice]
   \<and> handleBindingRequest no_unicode Reachable Reachable (Some investor_bob)
        (ready\<lparr>traderUid := ascii ''abc12345''\<rparr>, bound_store whole) =
       (ready\<lparr>traderUid := ascii ''abc12345'', toasts := [toast_already_requested]\<rparr>,
        (bound_store whole)
          \<lparr>requests := [SelectTrader (ascii ''ABC12345''), InsertBinding ''t1'' (Some ''i1'')]\<rparr>)"
proof -
  have h: "holds_binding (bound_store whole) (ident investor_bob)"
    by (rule bob_bound)
  have r: "requests (bound_store whole) = []"
    by (simp add: bound_store_def example_store_def)
  show ?thesis
    using h
      duplicate_request [OF h, of no_unicode Reachable Reachable
        "ready\<lparr>traderUid := ascii ''abc12345''\<rparr>" trader_alice]
    by (simp add: key_abc not_blank alice_by_code_bound r)
       (simp add: ready_def mounted_def trader_alice_def investor_bob_def)
qed

text \<open>
  C3. A successful call by an investor with no binding, for a code that resolves to a
  trader: the store holds exactly one binding of that investor afterwards, the new row,
  with status pending and that trader; and the component shows that trader as bound,
  with status pending.
\<close>

theorem request_creates_pending:
  assumes "succeeded d (fst (handleBindingRequest U lf insf (Some p) (d, b)))"
      and "\<not> holds_binding b (ident p)"
  shows "\<exists>t. traders_with_code b (toUpperCase U (trim (traderUid d))) = [t]
     \<and> bindings_table (snd (handleBindingRequest U lf insf (Some p) (d, b))) =
         bindings_table b @ [\<lparr>trader_id = ident t, investor_id = ident p, status = pending\<rparr>]
     \<and> filter (\<lambda>x. investor_id x = ident p)
         (bindings_table (snd (handleBindingRequest U lf insf (Some p) (d, b)))) =
         [\<lparr>trader_id = ident t, investor_id = ident p, status = pending\<rparr>]
     \<and> boundTrader (fst (handleBindingRequest U lf insf (Some p) (d, b))) = Some t
     \<and> bindingStatus (fst (handleBindingRequest U lf insf (Some p) (d, b))) = pending"
proof -
  from assms(1) obtain t x b2 where
    t: "traders_with_code b (toUpperCase U (trim (traderUid d))) = [t]" and
    ins: "insert_binding insf
       (b\<lparr>requests := requests b @ [SelectTrader (toUpperCase U (trim (traderUid d)))]\<rparr>)
       (ident t) (map_option ident (Some p)) = (Resolved x None, b2)" and
    res: "handleBindingRequest U lf insf (Some p) (d, b) =
       (d\<lparr>traderUid := [], boundTrader := Some t, bindingStatus := pending,
          submitting := False, toasts := toasts d @ [toast_request_sent t]\<rparr>, b2)"
    by (rule success_inversion)
  from ins have b2: "bindings_table b2 =
      bindings_table b @ [\<lparr>trader_id = ident t, investor_id = ident p, status = pending\<rparr>]"
    by (rule insert_none_inversion) simp
  from assms(2) have none: "filter (\<lambda>x. investor_id x = ident p) (bindings_table b) = []"
    by (simp add: holds_binding_def list_ex_iff filter_empty_conv)
  show ?thesis
    using t res b2 none by simp
qed

theorem request_creates_pending_witness:
  "succeeded (ready\<lparr>traderUid := ascii ''abc12345''\<rparr>)
     (fst (handleBindingRequest no_unicode Reachable Reachable (Some investor_bob)
       (ready\<lparr>traderUid := ascii ''abc12345''\<rparr>, example_store whole)))
   \<and> \<not> holds_binding (example_store whole) (ident investor_bob)
   \<and> bindings_table (snd (handleBindingRequest no_unicode Reachable Reachable
       (Some investor_bob) (ready\<lparr>traderUid := ascii ''abc12345''\<rparr>, example_store whole))) =
       [\<lparr>trader_id = ''t1'', investor_id = ''i1'', status = pending\<rparr>]
   \<and> bindingStatus (fst (handleBindingRequest no_unicode Reachable Reachable
       (Some investor_bob) (ready\<lparr>traderUid := ascii ''abc12345''\<rparr>, example_store whole))) =
       pending"
proof -
  have s: "succeeded (ready\<lparr>traderUid := ascii ''abc12345''\<rparr>)
     (fst (handleBindingRequest no_unicode Reachable Reachable (Some investor_bob)
       (ready\<lparr>traderUid := ascii ''abc12345''\<rparr>, example_store whole)))"
    by (simp add: request_example succeeded_def) (simp add: ready_def mounted_def)
  have u: "\<not> holds_binding (example_store whole) (ident investor_bob)"
    by (rule bob_unbound)
  show ?thesis
    using s u request_creates_pending [OF s u]
    by (simp add: request_example)
qed

text \<open>
  C4. A code that matches no user with role trader never leads to an insert and never
  creates a binding, whatever becomes of the call. When such a code reaches the lookup
  (it is not blank, so validation lets it pass) and the lookup is answered, the call
  ends with the \<^verbatim>\<open>Trader not found\<close> toast and the lookup is the only request sent.
\<close>

theorem unknown_code_not_found:
  assumes "traders_with_code b (toUpperCase U (trim (traderUid d))) = []"
  shows "bindings_table (snd (handleBindingRequest U lf insf profile (d, b))) =
           bindings_table b
       \<and> filter is_insert (requests (snd (handleBindingRequest U lf insf profile (d, b)))) =
           filter is_insert (requests b)
       \<and> (trim (traderUid d) \<noteq> [] \<and> \<not> throws lf \<longrightarrow>
            handleBindingRequest U lf insf profile (d, b) =
              (d\<lparr>submitting := False, toasts := toasts d @ [toast_trader_not_found]\<rparr>,
               b\<lparr>requests := requests b @
                    [SelectTrader (toUpperCase U (trim (traderUid d)))]\<rparr>))"
proof (cases "trim (traderUid d) = []")
  case True
  then show ?thesis by (simp add: handle_blank)
next
  case False
  show ?thesis
  proof (cases lf)
    case (Throw m)
    with False show ?thesis by (simp add: handle_lookup_throws)
  next
    case (ErrorReply e)
    with False show ?thesis by (simp add: handle_lookup_error)
  next
    case Reachable
    with False assms show ?thesis by (simp add: handle_no_match)
  qed
qed

theorem unknown_code_not_found_witness:
  "traders_with_code (example_store whole)
      (toUpperCase no_unicode (trim (ascii ''ZZZ99999''))) = []
   \<and> trim (ascii ''ZZZ99999'') \<noteq> []
   \<and> \<not> throws Reachable
   \<and> handleBindingRequest no_unicode Reachable Reachable (Some investor_bob)
        (ready\<lparr>traderUid := ascii ''ZZZ99999''\<rparr>, example_store whole) =
       (ready\<lparr>traderUid := ascii ''ZZZ99999'', toasts := [toast_trader_not_found]\<rparr>,
        (example_store whole)\<lparr>requests := [SelectTrader (ascii ''ZZZ99999'')]\<rparr>)
   \<and> bindings_table (snd (handleBindingRequest no_unicode Reachable Reachable
        (Some investor_bob) (ready\<lparr>traderUid := ascii ''ZZZ99999''\<rparr>, example_store whole))) =
       []"
proof -
  have t: "traders_with_code (example_store whole)
      (toUpperCase no_unicode
        (trim (traderUid (ready\<lparr>traderUid := ascii ''ZZZ99999''\<rparr> :: int component)))) = []"
    by (simp add: key_zzz nobody_by_code)
  have e: "requests (example_store whole) = []" "bindings_table (example_store whole) = []"
    by (simp_all add: example_store_def)
  show ?thesis
    using unknown_code_not_found [OF t, of Reachable Reachable "Some investor_bob"]
    by (simp add: key_zzz nobody_by_code not_blank e) (simp add: ready_def mounted_def)
qed

text \<open>
  C6. The code is trimmed and upper-cased before it is matched: the lookup that the
  component sends for a code carries the upper-cased code as its key. So two codes that
  differ only in letter case send the same key, what is entered in one case binds the
  trader who is registered under the other, and the call does the same with both: the
  same store and requests afterwards, and the same component but for the code left in
  the input field.
\<close>

theorem lookup_case_insensitive:
  assumes "differ_only_in_case c1 c2"
  shows "toUpperCase U (trim c1) = toUpperCase U (trim c2)
     \<and> (trim c1 \<noteq> [] \<longrightarrow>
          prefix (requests b @ [SelectTrader (toUpperCase U (trim c2))])
            (requests (snd (handleBindingRequest U lf insf profile (d\<lparr>traderUid := c1\<rparr>, b)))))
     \<and> (trim c1 \<noteq> [] \<and> traders_with_code b (toUpperCase U (trim c2)) = [t] \<and>
        \<not> holds_binding b (ident p) \<longrightarrow>
          boundTrader (fst (handleBindingRequest U Reachable Reachable (Some p)
            (d\<lparr>traderUid := c1\<rparr>, b))) = Some t)
     \<and> snd (handleBindingRequest U lf insf profile (d\<lparr>traderUid := c1\<rparr>, b)) =
       snd (handleBindingRequest U lf insf profile (d\<lparr>traderUid := c2\<rparr>, b))
     \<and> (fst (handleBindingRequest U lf insf profile (d\<lparr>traderUid := c1\<rparr>, b)))
         \<lparr>traderUid := []\<rparr> =
       (fst (handleBindingRequest U lf insf profile (d\<lparr>traderUid := c2\<rparr>, b)))
         \<lparr>traderUid := []\<rparr>"
proof -
  have key: "toUpperCase U (trim c1) = toUpperCase U (trim c2)"
    using assms by (rule same_key)
  have blank: "(trim c1 = []) = (trim c2 = [])"
    using assms by (rule same_blank)
  have sent: "prefix (requests b @ [SelectTrader (toUpperCase U (trim c2))])
      (requests (snd (handleBindingRequest U lf insf profile (d\<lparr>traderUid := c1\<rparr>, b))))"
    if "trim c1 \<noteq> []"
    using that handle_requests [of "d\<lparr>traderUid := c1\<rparr>" b U lf insf profile]
    by (simp add: key)
  have bound: "boundTrader (fst (handleBindingRequest U Reachable Reachable (Some p)
      (d\<lparr>traderUid := c1\<rparr>, b))) = Some t"
    if "trim c1 \<noteq> []" "traders_with_code b (toUpperCase U (trim c2)) = [t]"
      "\<not> holds_binding b (ident p)"
    using that
      handle_match [of "d\<lparr>traderUid := c1\<rparr>" b U t Reachable "Some p"]
    by (simp add: key insert_free)
  have same: "snd (handleBindingRequest U lf insf profile (d\<lparr>traderUid := c1\<rparr>, b)) =
       snd (handleBindingRequest U lf insf profile (d\<lparr>traderUid := c2\<rparr>, b))
     \<and> (fst (handleBindingRequest U lf insf profile (d\<lparr>traderUid := c1\<rparr>, b)))
         \<lparr>traderUid := []\<rparr> =
       (fst (handleBindingRequest U lf insf profile (d\<lparr>traderUid := c2\<rparr>, b)))
         \<lparr>traderUid := []\<rparr>"
    by (auto simp: handleBindingRequest_def key blank show_toast_def finally_block_def
          catch_error_def Let_def split: prod.splits reply.splits option.splits)
  show ?thesis
    using key sent bound same by blast
qed

theorem lookup_case_insensitive_witness:
  "differ_only_in_case (ascii ''abc12345'') (ascii ''ABC12345'')
   \<and> trim (ascii ''abc12345'') \<noteq> []
   \<and> traders_with_code (example_store whole)
        (toUpperCase no_unicode (trim (ascii ''ABC12345''))) = [trader_alice]
   \<and> \<not> holds_binding (example_store whole) (ident investor_bob)
   \<and> boundTrader (fst (handleBindingRequest no_unicode Reachable Reachable
        (Some investor_bob) (ready\<lparr>traderUid := ascii ''abc12345''\<rparr>, example_store whole))) =
       Some trader_alice
   \<and> prefix [SelectTrader (ascii ''ABC12345'')]
        (requests (snd (handleBindingRequest no_unicode Reachable Reachable
          (Some investor_bob) (ready\<lparr>traderUid := ascii ''abc12345''\<rparr>, example_store whole))))
   \<and> boundTrader (fst (handleBindingRequest no_unicode Reachable Reachable
        (Some investor_bob) (ready\<lparr>traderUid := ascii ''ABC12345''\<rparr>, example_store whole))) =
       Some trader_alice"
proof -
  have h: "differ_only_in_case (ascii ''abc12345'') (ascii ''ABC12345'')"
    by (simp add: differ_only_in_case_def same_letter_def string_defs)
  have n: "trim (ascii ''abc12345'') \<noteq> []"
    by (simp add: not_blank)
  have a: "traders_with_code (example_store whole)
        (toUpperCase no_unicode (trim (ascii ''ABC12345''))) = [trader_alice]"
    by (simp add: key_capitals alice_by_code)
  have u: "\<not> holds_binding (example_store whole) (ident investor_bob)"
    by (rule bob_unbound)
  note th = lookup_case_insensitive [OF h, where U = no_unicode and lf = Reachable
        and insf = Reachable and profile = "Some investor_bob" and p = investor_bob
        and t = trader_alice and d = ready and b = "example_store whole"]
  from th n a u have bound: "boundTrader (fst (handleBindingRequest no_unicode Reachable
        Reachable (Some investor_bob)
        (ready\<lparr>traderUid := ascii ''abc12345''\<rparr>, example_store whole))) = Some trader_alice"
    by blast
  from th n have "prefix
      (requests (example_store whole) @
        [SelectTrader (toUpperCase no_unicode (trim (ascii ''ABC12345'')))])
      (requests (snd (handleBindingRequest no_unicode Reachable Reachable
          (Some investor_bob) (ready\<lparr>traderUid := ascii ''abc12345''\<rparr>, example_store whole))))"
    by blast
  then have sent: "prefix [SelectTrader (ascii ''ABC12345'')]
      (requests (snd (handleBindingRequest no_unicode Reachable Reachable
          (Some investor_bob) (ready\<lparr>traderUid := ascii ''abc12345''\<rparr>, example_store whole))))"
    by (simp add: key_capitals example_store_def)
  have capitals: "boundTrader (fst (handleBindingRequest no_unicode Reachable Reachable
        (Some investor_bob) (ready\<lparr>traderUid := ascii ''ABC12345''\<rparr>, example_store whole))) =
       Some trader_alice"
    by (simp add: request_example_capitals)
  show ?thesis
    using h n a u bound sent capitals by blast
qed

text \<open>
  C8, as stated, fails: a code that is not blank but has the wrong shape (three
  characters, one of them no letter or digit) is sent to the store and ends with
  \<^verbatim>\<open>Trader not found\<close>, not with a validation error.
\<close>

theorem malformed_code_is_looked_up:
  "\<not> well_formed_code (ascii ''ab!'')
   \<and> handleBindingRequest no_unicode Reachable Reachable (Some investor_bob)
        (ready\<lparr>traderUid := ascii ''ab!''\<rparr>, example_store whole) =
       (ready\<lparr>traderUid := ascii ''ab!'', toasts := [toast_trader_not_found]\<rparr>,
        (example_store whole)\<lparr>requests := [SelectTrader (ascii ''AB!'')]\<rparr>)
   \<and> toast_trader_not_found \<noteq> toast_enter_uid"
  by (simp add: malformed_example toasts_differ) (simp add: well_formed_code_def ascii_def)

text \<open>
  C8, amended. A code that is empty or white space only ends with the validation toast
  and nothing is sent: the store and its request log are untouched. Every other code,
  whatever its shape, is sent to the lookup.
\<close>

theorem blank_code_validation:
  "(trim (traderUid d) = [] \<longrightarrow>
      handleBindingRequest U lf insf profile (d, b) =
        (d\<lparr>toasts := toasts d @ [toast_enter_uid]\<rparr>, b))
   \<and> (trim (traderUid d) \<noteq> [] \<longrightarrow>
      prefix (requests b @ [SelectTrader (toUpperCase U (trim (traderUid d)))])
        (requests (snd (handleBindingRequest U lf insf profile (d, b)))))"
  by (simp add: handle_blank handle_requests)

theorem blank_code_validation_witness:
  "trim (ascii '' '') = []
   \<and> handleBindingRequest no_unicode Reachable Reachable (Some investor_bob)
        (ready\<lparr>traderUid := ascii '' ''\<rparr>, example_store whole) =
       (ready\<lparr>traderUid := ascii '' '', toasts := [toast_enter_uid]\<rparr>, example_store whole)
   \<and> trim [0x00A0, 0x3000] = []
   \<and> handleBindingRequest no_unicode Reachable Reachable (Some investor_bob)
        (ready\<lparr>traderUid := [0x00A0, 0x3000]\<rparr>, example_store whole) =
       (ready\<lparr>traderUid := [0x00A0, 0x3000], toasts := [toast_enter_uid]\<rparr>,
        example_store whole)
   \<and> trim (ascii ''ab!'') \<noteq> []
   \<and> prefix [SelectTrader (ascii ''AB!'')]
        (requests (snd (handleBindingRequest no_unicode Reachable Reachable
          (Some investor_bob) (ready\<lparr>traderUid := ascii ''ab!''\<rparr>, example_store whole))))"
proof -
  have e: "requests (example_store whole) = []"
    by (simp add: example_store_def)
  show ?thesis
    using
      blank_code_validation [of "ready\<lparr>traderUid := ascii '' ''\<rparr>" no_unicode Reachable
        Reachable "Some investor_bob" "example_store whole"]
      blank_code_validation [of "ready\<lparr>traderUid := [0x00A0, 0x3000]\<rparr>" no_unicode Reachable
        Reachable "Some investor_bob" "example_store whole"]
      blank_code_validation [of "ready\<lparr>traderUid := ascii ''ab!''\<rparr>" no_unicode Reachable
        Reachable "Some investor_bob" "example_store whole"]
    by (simp add: blank not_blank key_malformed e) (simp add: ready_def mounted_def)
qed

text \<open>
  C10. Every call either fails or succeeds, never both. A failed call leaves
  \<open>bindingStatus\<close>, \<open>boundTrader\<close> and the entered code as they were; a successful
  call leaves the status pending.
\<close>

theorem failed_request_keeps_state:
  "(failed d (fst (handleBindingRequest U lf insf profile (d, b))) \<longrightarrow>
      bindingStatus (fst (handleBindingRequest U lf insf profile (d, b))) = bindingStatus d \<and>
      boundTrader (fst (handleBindingRequest U lf insf profile (d, b))) = boundTrader d \<and>
      traderUid (fst (handleBindingRequest U lf insf profile (d, b))) = traderUid d)
   \<and> (succeeded d (fst (handleBindingRequest U lf insf profile (d, b))) \<longrightarrow>
      bindingStatus (fst (handleBindingRequest U lf insf profile (d, b))) = pending)
   \<and> (failed d (fst (handleBindingRequest U lf insf profile (d, b))) \<noteq>
       succeeded d (fst (handleBindingRequest U lf insf profile (d, b))))"
proof (cases rule: handle_shape [of U lf insf profile d b])
  case (failure s t)
  then show ?thesis
    by (simp add: failed_def succeeded_def destructive_toasts split: option.splits)
       (metis destructive_toasts(5) option.distinct(1))
next
  case (success t)
  then show ?thesis
    by (simp add: failed_def succeeded_def destructive_toasts)
qed

theorem failed_request_keeps_state_witness:
  "failed (ready\<lparr>traderUid := ascii ''ZZZ99999''\<rparr>)
     (fst (handleBindingRequest no_unicode Reachable Reachable (Some investor_bob)
        (ready\<lparr>traderUid := ascii ''ZZZ99999''\<rparr>, example_store whole)))
   \<and> bindingStatus (fst (handleBindingRequest no_unicode Reachable Reachable (Some investor_bob)
        (ready\<lparr>traderUid := ascii ''ZZZ99999''\<rparr>, example_store whole))) = none
   \<and> boundTrader (fst (handleBindingRequest no_unicode Reachable Reachable (Some investor_bob)
        (ready\<lparr>traderUid := ascii ''ZZZ99999''\<rparr>, example_store whole))) = None
   \<and> traderUid (fst (handleBindingRequest no_unicode Reachable Reachable (Some investor_bob)
        (ready\<lparr>traderUid := ascii ''ZZZ99999''\<rparr>, example_store whole))) = ascii ''ZZZ99999''
   \<and> succeeded (ready\<lparr>traderUid := ascii ''abc12345''\<rparr>)
     (fst (handleBindingRequest no_unicode Reachable Reachable (Some investor_bob)
        (ready\<lparr>traderUid := ascii ''abc12345''\<rparr>, example_store whole)))
   \<and> bindingStatus (fst (handleBindingRequest no_unicode Reachable Reachable (Some investor_bob)
        (ready\<lparr>traderUid := ascii ''abc12345''\<rparr>, example_store whole))) = pending"
proof -
  have f: "failed (ready\<lparr>traderUid := ascii ''ZZZ99999''\<rparr>)
     (fst (handleBindingRequest no_unicode Reachable Reachable (Some investor_bob)
        (ready\<lparr>traderUid := ascii ''ZZZ99999''\<rparr>, example_store whole)))"
    by (simp add: unknown_example failed_def destructive_toasts) (simp add: ready_def mounted_def)
  have s: "succeeded (ready\<lparr>traderUid := ascii ''abc12345''\<rparr>)
     (fst (handleBindingRequest no_unicode Reachable Reachable (Some investor_bob)
        (ready\<lparr>traderUid := ascii ''abc12345''\<rparr>, example_store whole)))"
    by (simp add: request_example succeeded_def) (simp add: ready_def mounted_def)
  show ?thesis
    using f s
      failed_request_keeps_state [of "ready\<lparr>traderUid := ascii ''ZZZ99999''\<rparr>" no_unicode
        Reachable Reachable "Some investor_bob" "example_store whole"]
      failed_request_keeps_state [of "ready\<lparr>traderUid := ascii ''abc12345''\<rparr>" no_unicode
        Reachable Reachable "Some investor_bob" "example_store whole"]
    by (simp add: ready_def mounted_def)
qed

end
